theory Spec2Isabelle
  imports Complex_Main "HOL-Library.Sublist"
begin

section \<open>JavaScript strings\<close>

text \<open>
  A JavaScript string is a sequence of code units; \<open>string\<close> models the strings whose
  code units are below 256, and \<open>length\<close> is the \<open>.length\<close> of the source.

  \<open>isWhiteSpace\<close> is the set that \<open>String.prototype.trim\<close>, the regular expression class
  \<open>\s\<close> and the prefix skipping of \<open>parseInt\<close> share (white space and line terminators),
  restricted to these code units: TAB, LF, VT, FF, CR, SP and NBSP.
\<close>

definition isWhiteSpace :: "char \<Rightarrow> bool" where
  "isWhiteSpace c =
     (c = CHR 0x09 \<or> c = CHR 0x0A \<or> c = CHR 0x0B \<or> c = CHR 0x0C \<or> c = CHR 0x0D
      \<or> c = CHR 0x20 \<or> c = CHR 0xA0)"

definition trim :: "string \<Rightarrow> string" where
  "trim s = rev (dropWhile isWhiteSpace (rev (dropWhile isWhiteSpace s)))"

text \<open>\<open>includes_str s sub\<close> is \<open>s.includes(sub)\<close>: \<open>sub\<close> occurs in \<open>s\<close> at some position.\<close>

fun includes_str :: "string \<Rightarrow> string \<Rightarrow> bool" where
  "includes_str [] sub = (sub = [])"
| "includes_str (c # cs) sub = (prefix sub (c # cs) \<or> includes_str cs sub)"

text \<open>
  \<open>parseInt(str)\<close> with no radix: leading white space is skipped, one sign is read, a
  prefix \<open>0x\<close> or \<open>0X\<close> selects radix 16, and the longest run of digits of the radix is
  the value; no digit at all gives \<open>NaN\<close>, here \<open>None\<close>. The rest of the string is ignored.
  The value is kept as an exact integer: the source compares it with 0 and 10000 only,
  and stores it only when the string has at most three characters.
\<close>

definition digitValue :: "char \<Rightarrow> nat option" where
  "digitValue c =
     (let n = (of_char c :: nat) in
      if 48 \<le> n \<and> n \<le> 57 then Some (n - 48)
      else if 97 \<le> n \<and> n \<le> 102 then Some (n - 87)
      else if 65 \<le> n \<and> n \<le> 70 then Some (n - 55)
      else None)"

definition isRadixDigit :: "nat \<Rightarrow> char \<Rightarrow> bool" where
  "isRadixDigit R c = (case digitValue c of Some d \<Rightarrow> d < R | None \<Rightarrow> False)"

definition digitsValue :: "nat \<Rightarrow> string \<Rightarrow> nat" where
  "digitsValue R Z =
     foldl (\<lambda>acc c. acc * R + (case digitValue c of Some d \<Rightarrow> d | None \<Rightarrow> 0)) 0 Z"

definition parseInt :: "string \<Rightarrow> int option" where
  "parseInt str =
     (let S = dropWhile isWhiteSpace str;
          sign = (case S of c # _ \<Rightarrow> if c = CHR ''-'' then - 1 else 1 | [] \<Rightarrow> (1::int));
          S1 = (case S of c # cs \<Rightarrow> if c = CHR ''+'' \<or> c = CHR ''-'' then cs else S | [] \<Rightarrow> S);
          hex = (prefix ''0x'' S1 \<or> prefix ''0X'' S1);
          R = (if hex then 16 else 10);
          S2 = (if hex then drop 2 S1 else S1);
          Z = takeWhile (isRadixDigit R) S2
      in if Z = [] then None else Some (sign * int (digitsValue R Z)))"

text \<open>A numeric string, as the specification reads it: one or more decimal digits.\<close>

definition isDigit :: "char \<Rightarrow> bool" where
  "isDigit c = (48 \<le> (of_char c :: nat) \<and> (of_char c :: nat) \<le> 57)"

definition numeric :: "string \<Rightarrow> bool" where
  "numeric s = (s \<noteq> [] \<and> list_all isDigit s)"

definition decimalValue :: "string \<Rightarrow> nat" where
  "decimalValue s = foldl (\<lambda>acc c. acc * 10 + ((of_char c :: nat) - 48)) 0 s"

section \<open>Requests and responses\<close>

text \<open>
  The query object of \<open>GET /users/transactions/all\<close>: \<open>limit\<close> is always present, the
  three filters are properties that the page may or may not set.
\<close>

record Params =
  limit :: nat
  userId :: "int option"
  idNumber :: "string option"
  email :: "string option"

text \<open>
  A call of the API client resolves with the response data or rejects; a rejection
  carries \<open>err.response?.data?.error\<close> when the server sent one.
\<close>

datatype 'a ApiResult = Resolved 'a | Rejected "string option"

datatype ToastType = Success | Error | Info

record ToastState =
  message :: string
  toastType :: ToastType

text \<open>\<open>orElse v d\<close> is \<open>v || d\<close> on an optional string: absent and empty are falsy.\<close>

definition orElse :: "string option \<Rightarrow> string \<Rightarrow> string" where
  "orElse v d = (case v of None \<Rightarrow> d | Some s \<Rightarrow> if s = [] then d else s)"

section \<open>The transactions pages\<close>

text \<open>
  The repository holds two \<open>TransactionsPage\<close> components. Page A refreshes itself every
  two seconds; page B has the email search and a receipt dialog. Both keep the fetched
  list, a loading flag, a toast and the text of the search box in their state, and both
  reconstruct reward increments while rendering.

  The JavaScript number type is a parameter \<open>'n\<close> of the data model: what the source
  does with numbers is done through the operations of \<open>NumOps\<close> below, so that nothing
  proved here depends on how IEEE doubles round.

  \<open>amount\<close> is declared a number, and the source still tests \<open>typeof\<close> and converts a
  string; \<open>JsValue\<close> holds the three shapes the test tells apart.
\<close>

datatype 'n JsValue = JsNumber 'n | JsString string | JsNull

record 'n Transaction =
  tx_id :: int
  user_id :: int
  amount :: "'n JsValue"
  transaction_type :: string
  description :: "string option"
  admin_id :: "int option"
  created_at :: string
  user_name :: "string option"
  user_id_number :: "string option"
  user_email :: "string option"
  user_nickname :: "string option"
  admin_name :: "string option"

record PageBase =
  loading :: bool
  toast :: "ToastState option"

record SearchPage = PageBase +
  searchQuery :: string

record 'n TransactionsPage = SearchPage +
  transactions :: "'n Transaction list"
  autoRefreshing :: bool

text \<open>
  The requests the pages send. The path parameter of \<open>/users/{id}/points\<close> is a number on
  the dashboard and the route's text on the user page; \<open>PathId\<close> keeps both.
\<close>

datatype OrderStatus = COMPLETED | REJECTED

datatype PathId = NumberId int | TextId string

datatype Request =
    GetUsersPending
  | GetUsersApproved
  | GetOrdersPending
  | GetOrdersRejected
  | GetTransactionsAll Params
  | PatchOrderStatus int OrderStatus
  | PostUserPoints PathId int string
  | PostAuthLogin string string

text \<open>
  The part of \<open>fetchTransactions\<close> that fills \<open>params\<close>, on page A (also the body of
  its refresh timer) and on page B.
\<close>

definition searchParamsA :: "string \<Rightarrow> Params" where
  "searchParamsA q =
     (let params = \<lparr>limit = 500, userId = None, idNumber = None, email = None\<rparr> in
      if trim q \<noteq> [] then
        (let query = trim q; numValue = parseInt query in
         if (case numValue of None \<Rightarrow> False
             | Some n \<Rightarrow> length query \<le> 3 \<and> 0 < n \<and> n < 10000)
         then params\<lparr>userId := numValue\<rparr>
         else params\<lparr>idNumber := Some query\<rparr>)
      else params)"

definition searchParamsB :: "string \<Rightarrow> Params" where
  "searchParamsB q =
     (let params = \<lparr>limit = 500, userId = None, idNumber = None, email = None\<rparr> in
      if trim q \<noteq> [] then
        (let query = trim q; numValue = parseInt query in
         if includes_str query ''@''
         then params\<lparr>email := Some query\<rparr>
         else if (case numValue of None \<Rightarrow> False
                  | Some n \<Rightarrow> length query \<le> 3 \<and> 0 < n \<and> n < 10000)
         then params\<lparr>userId := numValue\<rparr>
         else params\<lparr>idNumber := Some query\<rparr>)
      else params)"

text \<open>
  \<open>fetchTransactions\<close>: the request it issues and the state it leaves, given how the
  request ends. A response without a \<open>transactions\<close> property gives the empty list.
\<close>

definition fetchTransactionsA ::
  "'n Transaction list option ApiResult \<Rightarrow> 'n TransactionsPage
     \<Rightarrow> 'n TransactionsPage \<times> Request list" where
  "fetchTransactionsA response st =
     (let params = searchParamsA (searchQuery st) in
      (case response of
         Resolved data \<Rightarrow>
           st\<lparr>transactions := (case data of Some ts \<Rightarrow> ts | None \<Rightarrow> []), loading := False\<rparr>
       | Rejected err \<Rightarrow>
           st\<lparr>toast := Some \<lparr>message = orElse err ''Failed to load transactions'',
                               toastType = Error\<rparr>,
              loading := False\<rparr>,
       [GetTransactionsAll params]))"

definition autoRefresh ::
  "'n Transaction list option ApiResult \<Rightarrow> 'n TransactionsPage
     \<Rightarrow> 'n TransactionsPage \<times> Request list" where
  "autoRefresh response st =
     (let params = searchParamsA (searchQuery st) in
      (case response of
         Resolved data \<Rightarrow>
           st\<lparr>transactions := (case data of Some ts \<Rightarrow> ts | None \<Rightarrow> []),
              autoRefreshing := False\<rparr>
       | Rejected err \<Rightarrow> st\<lparr>autoRefreshing := False\<rparr>,
       [GetTransactionsAll params]))"

definition fetchTransactionsB ::
  "'n Transaction list option ApiResult \<Rightarrow> 'n TransactionsPage
     \<Rightarrow> 'n TransactionsPage \<times> Request list" where
  "fetchTransactionsB response st =
     (let params = searchParamsB (searchQuery st) in
      (case response of
         Resolved data \<Rightarrow>
           st\<lparr>transactions := (case data of Some ts \<Rightarrow> ts | None \<Rightarrow> []), loading := False\<rparr>
       | Rejected err \<Rightarrow>
           st\<lparr>toast := Some \<lparr>message = orElse err ''Failed to load transactions'',
                               toastType = Error\<rparr>,
              loading := False\<rparr>,
       [GetTransactionsAll params]))"

text \<open>A page state to run the examples on: nothing loaded, the given text in the search box.\<close>

definition searching :: "string \<Rightarrow> unit TransactionsPage" where
  "searching q =
     \<lparr>loading = True, toast = None, searchQuery = q, transactions = [],
      autoRefreshing = False\<rparr>"

section \<open>The displayed amount of a transaction\<close>

text \<open>
  Both transactions pages compute \<open>displayAmount\<close> in the same way while they render the
  rows. The number operations the routine uses are the fields of \<open>NumOps\<close>:
  \<open>parseFloat\<close>, the number literals, \<open>-\<close>, \<open>*\<close>, \<open>/\<close>, \<open>Math.round\<close>, \<open>>\<close> and the
  truth value of a number (false for \<open>0\<close> and \<open>NaN\<close>).
\<close>

record 'n NumOps =
  parseFloat :: "string \<Rightarrow> 'n"
  num_lit :: "int \<Rightarrow> 'n"
  num_sub :: "'n \<Rightarrow> 'n \<Rightarrow> 'n"
  num_mul :: "'n \<Rightarrow> 'n \<Rightarrow> 'n"
  num_div :: "'n \<Rightarrow> 'n \<Rightarrow> 'n"
  mathRound :: "'n \<Rightarrow> 'n"
  num_gt :: "'n \<Rightarrow> 'n \<Rightarrow> bool"
  num_truthy :: "'n \<Rightarrow> bool"

text \<open>\<open>Math.round(x * 100) / 100\<close>.\<close>

definition round2 :: "'n NumOps \<Rightarrow> 'n \<Rightarrow> 'n" where
  "round2 ops x = num_div ops (mathRound ops (num_mul ops x (num_lit ops 100))) (num_lit ops 100)"

text \<open>\<open>x || 0\<close> on a number.\<close>

definition orZero :: "'n NumOps \<Rightarrow> 'n \<Rightarrow> 'n" where
  "orZero ops x = (if num_truthy ops x then x else num_lit ops 0)"

text \<open>
  \<open>descriptionText\<close> reads a description that may be \<open>null\<close>; \<open>null\<close> and the empty
  string are both falsy in the tests of the source.
\<close>

definition descriptionText :: "'n Transaction \<Rightarrow> string" where
  "descriptionText t = (case description t of None \<Rightarrow> [] | Some d \<Rightarrow> d)"

text \<open>
  The test that selects the reward rows:
  \<open>transaction_type === 'ADDED' && description && description.includes('Weekly Sale Reward')\<close>.
\<close>

definition isWeeklySaleReward :: "'n Transaction \<Rightarrow> bool" where
  "isWeeklySaleReward t =
     (transaction_type t = ''ADDED'' \<and> descriptionText t \<noteq> []
      \<and> includes_str (descriptionText t) ''Weekly Sale Reward'')"

text \<open>
  \<open>description.match(/Reward:\s*([\d.]+)/)\<close>: the first group of the leftmost match, or
  \<open>None\<close> when the pattern matches nowhere. After \<open>Reward:\<close> the white space is skipped and
  the longest run of digits and dots is captured; the run must not be empty.
\<close>

definition isDigitOrDot :: "char \<Rightarrow> bool" where
  "isDigitOrDot c = (isDigit c \<or> c = CHR ''.'')"

definition matchHere :: "string \<Rightarrow> string option" where
  "matchHere s =
     (if prefix ''Reward:'' s then
        (let g = takeWhile isDigitOrDot (dropWhile isWhiteSpace (drop 7 s))
         in if g = [] then None else Some g)
      else None)"

fun rewardMatch :: "string \<Rightarrow> string option" where
  "rewardMatch [] = None"
| "rewardMatch (c # cs) =
     (case matchHere (c # cs) of Some g \<Rightarrow> Some g | None \<Rightarrow> rewardMatch cs)"

text \<open>
  The loop \<open>for (let i = index + 1; i < transactions.length; i++)\<close> that looks for the
  previous reward row of the same user; it leaves at the first row that passes the tests
  and matches the pattern, and \<open>previousTotalReward\<close> stays \<open>0\<close> when no row does.
\<close>

function previousTotalReward ::
  "'n NumOps \<Rightarrow> 'n Transaction list \<Rightarrow> 'n Transaction \<Rightarrow> nat \<Rightarrow> 'n" where
  "previousTotalReward ops txs transaction i =
     (if i < length txs then
        (if user_id (txs ! i) = user_id transaction \<and> isWeeklySaleReward (txs ! i) then
           (case rewardMatch (descriptionText (txs ! i)) of
              Some g \<Rightarrow> parseFloat ops g
            | None \<Rightarrow> previousTotalReward ops txs transaction (i + 1))
         else previousTotalReward ops txs transaction (i + 1))
      else num_lit ops 0)"
  by pat_completeness auto
termination
  by (relation "measure (\<lambda>(ops, txs, transaction, i). length txs - i)") auto

declare previousTotalReward.simps [simp del]

text \<open>The number a stored \<open>amount\<close> stands for, in the branch of the other rows.\<close>

definition storedAmount :: "'n NumOps \<Rightarrow> 'n JsValue \<Rightarrow> 'n" where
  "storedAmount ops v =
     (case v of
        JsNumber n \<Rightarrow> n
      | JsString s \<Rightarrow> orZero ops (parseFloat ops (if s = [] then ''0'' else s))
      | JsNull \<Rightarrow> orZero ops (parseFloat ops ''0''))"

definition displayAmount ::
  "'n NumOps \<Rightarrow> 'n Transaction list \<Rightarrow> 'n Transaction \<Rightarrow> nat \<Rightarrow> 'n" where
  "displayAmount ops txs transaction index =
     (if isWeeklySaleReward transaction then
        (let currentTotalReward =
               (case rewardMatch (descriptionText transaction) of
                  Some g \<Rightarrow> parseFloat ops g
                | None \<Rightarrow> num_lit ops 0)
         in if num_gt ops currentTotalReward (num_lit ops 0)
            then round2 ops (num_sub ops currentTotalReward
                               (previousTotalReward ops txs transaction (index + 1)))
            else num_lit ops 0)
      else round2 ops (storedAmount ops (amount transaction)))"

text \<open>The amounts of all rows, in the order of \<open>transactions.map\<close>.\<close>

definition displayAmounts :: "'n NumOps \<Rightarrow> 'n Transaction list \<Rightarrow> 'n list" where
  "displayAmounts ops txs = map (\<lambda>index. displayAmount ops txs (txs ! index) index) [0..<length txs]"

subsection \<open>What the specification says the amount is\<close>

text \<open>
  A reward transaction has type \<open>ADDED\<close> and a description with a cumulative
  \<open>Reward: N\<close> figure, recognised as the page recognises it: the description contains
  \<open>Weekly Sale Reward\<close> and the pattern matches. \<open>cumulativeFigure\<close> is that figure.
  \<open>instant\<close> gives the instant a \<open>created_at\<close> text denotes. In a list ordered by
  recency, row \<open>j\<close> is earlier than row \<open>i\<close> when it was created before row \<open>i\<close>, or at
  the same instant and is listed below it. The earlier reward transactions of the same
  user are the reward rows of that user among these, and the nearest is the latest of
  them, the first listed among rows of one instant.
\<close>

definition rewardTransaction :: "'n Transaction \<Rightarrow> bool" where
  "rewardTransaction t = (isWeeklySaleReward t \<and> rewardMatch (descriptionText t) \<noteq> None)"

definition cumulativeFigure :: "'n NumOps \<Rightarrow> 'n Transaction \<Rightarrow> 'n" where
  "cumulativeFigure ops t =
     (case rewardMatch (descriptionText t) of Some g \<Rightarrow> parseFloat ops g | None \<Rightarrow> num_lit ops 0)"

definition earlierRow ::
  "(string \<Rightarrow> 't::linorder) \<Rightarrow> 'n Transaction list \<Rightarrow> nat \<Rightarrow> nat \<Rightarrow> bool" where
  "earlierRow instant txs i j =
     (instant (created_at (txs ! j)) < instant (created_at (txs ! i))
      \<or> (instant (created_at (txs ! j)) = instant (created_at (txs ! i)) \<and> i < j))"

definition earlierRewards ::
  "(string \<Rightarrow> 't::linorder) \<Rightarrow> 'n Transaction list \<Rightarrow> nat \<Rightarrow> 'n Transaction list" where
  "earlierRewards instant txs i =
     map (\<lambda>j. txs ! j)
       (filter (\<lambda>j. earlierRow instant txs i j \<and> user_id (txs ! j) = user_id (txs ! i)
                     \<and> rewardTransaction (txs ! j))
          [0..<length txs])"

definition latest :: "(string \<Rightarrow> 't::linorder) \<Rightarrow> 'n Transaction list \<Rightarrow> 'n Transaction option" where
  "latest instant ps =
     (case ps of [] \<Rightarrow> None
      | p # rest \<Rightarrow>
          Some (foldl (\<lambda>best q. if instant (created_at best) < instant (created_at q) then q else best)
                  p rest))"

definition nearestEarlierReward ::
  "(string \<Rightarrow> 't::linorder) \<Rightarrow> 'n Transaction list \<Rightarrow> nat \<Rightarrow> 'n Transaction option" where
  "nearestEarlierReward instant txs i = latest instant (earlierRewards instant txs i)"

text \<open>The amount the specification gives for row \<open>i\<close> of the list.\<close>

definition specIncrement ::
  "'n NumOps \<Rightarrow> (string \<Rightarrow> 't::linorder) \<Rightarrow> 'n Transaction list \<Rightarrow> nat \<Rightarrow> 'n" where
  "specIncrement ops instant txs i =
     round2 ops
       (case nearestEarlierReward instant txs i of
          None \<Rightarrow> cumulativeFigure ops (txs ! i)
        | Some p \<Rightarrow> num_sub ops (cumulativeFigure ops (txs ! i)) (cumulativeFigure ops p))"

text \<open>
  No prior reward transaction is found in the fetched list: no row below row \<open>i\<close> is a
  reward transaction of the same user.
\<close>

definition noPriorFound :: "'n Transaction list \<Rightarrow> nat \<Rightarrow> bool" where
  "noPriorFound txs i =
     list_all (\<lambda>p. \<not> (user_id p = user_id (txs ! i) \<and> rewardTransaction p)) (drop (Suc i) txs)"

text \<open>
  Sorted descending by recency: no row is created before a row below it. Rows may share
  an instant.
\<close>

definition sortedByRecency :: "(string \<Rightarrow> 't::linorder) \<Rightarrow> 'n Transaction list \<Rightarrow> bool" where
  "sortedByRecency instant txs =
     sorted_wrt (\<lambda>a b. instant (created_at b) \<le> instant (created_at a)) txs"

subsection \<open>An interpretation of the numbers for the examples\<close>

text \<open>
  \<open>exact\<close> computes with exact rationals, \<open>None\<close> standing for \<open>NaN\<close> and for the result
  of a division by zero. Its \<open>parseFloat\<close> reads an optional sign and a decimal numeral
  without exponent. On the small decimal figures of the examples below it gives the
  values JavaScript gives.
\<close>

definition exact_parseFloat :: "string \<Rightarrow> rat option" where
  "exact_parseFloat str =
     (let S = dropWhile isWhiteSpace str;
          sign = (case S of c # _ \<Rightarrow> if c = CHR ''-'' then - 1 else 1 | [] \<Rightarrow> (1::rat));
          S1 = (case S of c # cs \<Rightarrow> if c = CHR ''+'' \<or> c = CHR ''-'' then cs else S | [] \<Rightarrow> S);
          ip = takeWhile isDigit S1;
          fp = (case dropWhile isDigit S1 of c # cs \<Rightarrow> if c = CHR ''.'' then takeWhile isDigit cs else []
                | [] \<Rightarrow> [])
      in if ip = [] \<and> fp = [] then None
         else Some (sign * (of_nat (decimalValue ip) + of_nat (decimalValue fp) / 10 ^ length fp)))"

definition exact_binop :: "(rat \<Rightarrow> rat \<Rightarrow> rat) \<Rightarrow> rat option \<Rightarrow> rat option \<Rightarrow> rat option" where
  "exact_binop f a b =
     (case a of None \<Rightarrow> None | Some x \<Rightarrow> (case b of None \<Rightarrow> None | Some y \<Rightarrow> Some (f x y)))"

definition exact :: "rat option NumOps" where
  "exact =
     \<lparr>parseFloat = exact_parseFloat,
      num_lit = (\<lambda>n. Some (of_int n)),
      num_sub = exact_binop (\<lambda>x y. x - y),
      num_mul = exact_binop (\<lambda>x y. x * y),
      num_div = (\<lambda>a b. if b = Some 0 then None else exact_binop (\<lambda>x y. x / y) a b),
      mathRound = (\<lambda>a. case a of None \<Rightarrow> None | Some x \<Rightarrow> Some (of_int \<lfloor>x + 1 / 2\<rfloor>)),
      num_gt = (\<lambda>a b. case a of None \<Rightarrow> False
                       | Some x \<Rightarrow> (case b of None \<Rightarrow> False | Some y \<Rightarrow> y < x)),
      num_truthy = (\<lambda>a. a \<noteq> None \<and> a \<noteq> Some 0)\<rparr>"

text \<open>A reward row for the examples: user, creation time and description.\<close>

definition rewardRow :: "int \<Rightarrow> string \<Rightarrow> string \<Rightarrow> rat option Transaction" where
  "rewardRow uid created d =
     \<lparr>tx_id = 0, user_id = uid, amount = JsNumber (Some 0), transaction_type = ''ADDED'',
      description = Some d, admin_id = None, created_at = created, user_name = None,
      user_id_number = None, user_email = None, user_nickname = None, admin_name = None\<rparr>"

text \<open>
  \<open>isoInstant\<close> orders dates written as year, month, day by reading their digits as one
  number. Three lists for the examples, newest row first; in the first, two users are
  rewarded on the same day.
\<close>

definition isoInstant :: "string \<Rightarrow> nat" where
  "isoInstant s = decimalValue (filter isDigit s)"

definition threeRewards :: "rat option Transaction list" where
  "threeRewards =
     [rewardRow 1 ''2024-03-03'' ''Weekly Sale Reward: 12.5'',
      rewardRow 2 ''2024-03-03'' ''Weekly Sale Reward: 3'',
      rewardRow 1 ''2024-03-01'' ''Weekly Sale Reward: 10.25'']"

definition zeroAfterFive :: "rat option Transaction list" where
  "zeroAfterFive =
     [rewardRow 1 ''2024-03-02'' ''Weekly Sale Reward: 0'',
      rewardRow 1 ''2024-03-01'' ''Weekly Sale Reward: 5'']"

definition oneReward :: "rat option Transaction list" where
  "oneReward = [rewardRow 1 ''2024-03-01'' ''Weekly Sale Reward: 5'']"

section \<open>Effects of the handlers\<close>

text \<open>
  A handler is a function from the page state, and from the answers it gets from the
  user and from the server, to the state it leaves and the list of what it did outside
  the state, in order: requests, dialogs, the cookie, navigation. \<open>Call_fetchData\<close> and
  \<open>Call_fetchUserDetails\<close> record that the handler ends by calling the page's refetch.
  Console logging is left out.
\<close>

datatype Effect =
    Api Request
  | Confirm string
  | Prompt string
  | PlayNotificationSound
  | ShowSystemNotification nat
  | Call_fetchData
  | Call_fetchUserDetails
  | SetToken string
  | RouterPush string

section \<open>The dashboard\<close>

text \<open>
  Case mapping is a parameter: the theorems hold for whatever \<open>toUpperCase\<close> and
  \<open>toLowerCase\<close> do; \<open>ascii\<close> maps the letters a to z and is used in the examples.
\<close>

record StringOps =
  toUpperCase :: "string \<Rightarrow> string"
  toLowerCase :: "string \<Rightarrow> string"

definition asciiUpper :: "char \<Rightarrow> char" where
  "asciiUpper c =
     (case map_of (zip ''abcdefghijklmnopqrstuvwxyz'' ''ABCDEFGHIJKLMNOPQRSTUVWXYZ'') c of
        None \<Rightarrow> c | Some u \<Rightarrow> u)"

definition asciiLower :: "char \<Rightarrow> char" where
  "asciiLower c =
     (case map_of (zip ''ABCDEFGHIJKLMNOPQRSTUVWXYZ'' ''abcdefghijklmnopqrstuvwxyz'') c of
        None \<Rightarrow> c | Some l \<Rightarrow> l)"

definition ascii :: StringOps where
  "ascii = \<lparr>toUpperCase = map asciiUpper, toLowerCase = map asciiLower\<rparr>"

text \<open>
  An order as the list endpoints return it. \<open>status\<close> is declared a string; the source
  reads it as \<open>order.status || ""\<close>, so the model lets it be absent. The number fields
  are not computed with and are kept as integers.
\<close>

record Order =
  order_id :: int
  order_number :: string
  order_user_id :: int
  parent_user_name :: string
  parent_user_id_number :: string
  parent_user_email :: "string option"
  customer_name :: "string option"
  client_imo_id :: "string option"
  client_profile_photo :: "string option"
  diamond_amount :: int
  quantity :: int
  points_used :: int
  status :: "string option"
  order_created_at :: string

text \<open>
  The state of the dashboard that the order and points handlers read and write. The two
  user lists and the counters of the statistics cards are left out: \<open>fetchData\<close> stores
  them, and none of the modelled handlers reads them. The two \<open>useRef\<close> cells of
  \<open>applyPendingOrders\<close> are part of the state; the set of known order ids is a list
  without duplicates.
\<close>

record Dashboard = SearchPage +
  pendingOrders :: "Order list"
  rejectedOrders :: "Order list"
  pointsAmount :: string
  pointsDescription :: string
  lastOrderIdsRef :: "int list"
  hasLoadedOrdersRef :: bool

definition getOrderStatus :: "StringOps \<Rightarrow> Order \<Rightarrow> string" where
  "getOrderStatus sops order =
     trim (toUpperCase sops (case status order of None \<Rightarrow> [] | Some s \<Rightarrow> s))"

fun showNat :: "nat \<Rightarrow> string" where
  "showNat n = (if n < 10 then [''0123456789'' ! n]
                else showNat (n div 10) @ [''0123456789'' ! (n mod 10)])"

declare showNat.simps [simp del]

definition applyPendingOrders ::
  "Order list \<Rightarrow> bool \<Rightarrow> Dashboard \<Rightarrow> Dashboard \<times> Effect list" where
  "applyPendingOrders orders notify st =
     (let st1 = st\<lparr>pendingOrders := orders\<rparr>;
          currentIds = remdups (map order_id orders)
      in if \<not> hasLoadedOrdersRef st then
           (st1\<lparr>lastOrderIdsRef := currentIds, hasLoadedOrdersRef := True\<rparr>, [])
         else
           (let newCount = length (filter (\<lambda>i. i \<notin> set (lastOrderIdsRef st)) currentIds)
            in if notify \<and> 0 < newCount then
                 (st1\<lparr>toast := Some \<lparr>message = (if newCount = 1 then ''New order received''
                                                    else ''New orders received ('' @ showNat newCount @ '')''),
                                      toastType = Info\<rparr>,
                      lastOrderIdsRef := currentIds\<rparr>,
                  [PlayNotificationSound, ShowSystemNotification newCount])
               else (st1\<lparr>lastOrderIdsRef := currentIds\<rparr>, [])))"

text \<open>
  \<open>fetchData\<close> sends the four list requests together and goes on only when all four
  resolve; \<open>FetchedData\<close> is the part of the four answers that concerns orders, each
  list absent when the response has no \<open>orders\<close> property.
\<close>

record FetchedData =
  pendingOrdersData :: "Order list option"
  rejectedOrdersData :: "Order list option"

definition orEmpty :: "'a list option \<Rightarrow> 'a list" where
  "orEmpty v = (case v of None \<Rightarrow> [] | Some xs \<Rightarrow> xs)"

definition fetchData ::
  "StringOps \<Rightarrow> FetchedData ApiResult \<Rightarrow> Dashboard \<Rightarrow> Dashboard \<times> Effect list" where
  "fetchData sops response st =
     (let requests = [Api GetUsersPending, Api GetUsersApproved, Api GetOrdersPending,
                      Api GetOrdersRejected]
      in case response of
           Resolved d \<Rightarrow>
             (let applied = applyPendingOrders (orEmpty (pendingOrdersData d)) False
                              (st\<lparr>loading := True\<rparr>);
                  rejectedOnly = filter (\<lambda>order. getOrderStatus sops order = ''REJECTED'')
                                   (orEmpty (rejectedOrdersData d))
              in ((fst applied)\<lparr>rejectedOrders := rejectedOnly, loading := False\<rparr>,
                  requests @ snd applied))
         | Rejected err \<Rightarrow>
             (st\<lparr>toast := Some \<lparr>message = ''Failed to refresh data. Please reload the page.'',
                                 toastType = Error\<rparr>,
                 loading := False\<rparr>,
              requests))"

text \<open>
  \<open>handleAddPoints\<close> of the dashboard. The amount is the text of a number input; the
  response is the text that \<open>${updatedBalance}\<close> prints.
\<close>

definition handleAddPoints ::
  "int \<Rightarrow> string ApiResult \<Rightarrow> Dashboard \<Rightarrow> Dashboard \<times> Effect list" where
  "handleAddPoints uid response st =
     (let amt = parseInt (pointsAmount st);
          invalid = (st\<lparr>toast := Some \<lparr>message = ''Please enter a valid amount'',
                                         toastType = Error\<rparr>\<rparr>, [])
      in case amt of
           None \<Rightarrow> invalid
         | Some a \<Rightarrow>
             if pointsAmount st = [] \<or> a \<le> 0 then invalid
             else
               (let descriptionValue =
                      (if pointsDescription st = [] then ''Quick Store'' else pointsDescription st);
                    post = Api (PostUserPoints (NumberId uid) a descriptionValue)
                in case response of
                     Resolved updatedBalance \<Rightarrow>
                       (st\<lparr>toast := Some \<lparr>message = ''Points added successfully! New balance: ''
                                                       @ updatedBalance,
                                           toastType = Success\<rparr>,
                           pointsAmount := [], pointsDescription := []\<rparr>,
                        [post, Call_fetchData])
                   | Rejected err \<Rightarrow>
                       (st\<lparr>toast := Some \<lparr>message = orElse err ''Failed to add points'',
                                           toastType = Error\<rparr>\<rparr>,
                        [post])))"

text \<open>
  \<open>handleOrderStatus\<close>. \<open>confirm\<close> is the answer the user gives to a dialog with the
  given text; the dialog is an effect of its own, recorded only when it is shown.
\<close>

definition rejectQuestion :: string where
  "rejectQuestion = ''Are you sure you want to reject this order? Points will be refunded.''"

definition statusLower :: "OrderStatus \<Rightarrow> string" where
  "statusLower s = (case s of COMPLETED \<Rightarrow> ''completed'' | REJECTED \<Rightarrow> ''rejected'')"

definition handleOrderStatus ::
  "(string \<Rightarrow> bool) \<Rightarrow> unit ApiResult \<Rightarrow> int \<Rightarrow> OrderStatus \<Rightarrow> Dashboard
     \<Rightarrow> Dashboard \<times> Effect list" where
  "handleOrderStatus confirm response orderId s st =
     (if s = REJECTED \<and> \<not> confirm rejectQuestion then (st, [Confirm rejectQuestion])
      else
        (let asked = (if s = REJECTED then [Confirm rejectQuestion] else []);
             patch = Api (PatchOrderStatus orderId s)
         in case response of
              Resolved u \<Rightarrow>
                (st\<lparr>toast := Some \<lparr>message = ''Order '' @ statusLower s @ '' successfully!'',
                                    toastType = Success\<rparr>\<rparr>,
                 asked @ [patch, Call_fetchData])
            | Rejected err \<Rightarrow>
                (st\<lparr>toast := Some \<lparr>message = orElse err ''Failed to update order status'',
                                    toastType = Error\<rparr>\<rparr>,
                 asked @ [patch])))"

text \<open>
  The lists the order tabs render. \<open>field && field.toLowerCase().includes(query)\<close> is
  false for an absent and for an empty field.
\<close>

definition fieldIncludes :: "StringOps \<Rightarrow> string \<Rightarrow> string \<Rightarrow> bool" where
  "fieldIncludes sops field query = (field \<noteq> [] \<and> includes_str (toLowerCase sops field) query)"

definition orderMatches :: "StringOps \<Rightarrow> string \<Rightarrow> Order \<Rightarrow> bool" where
  "orderMatches sops query order =
     (includes_str (toLowerCase sops (order_number order)) query
      \<or> fieldIncludes sops (parent_user_name order) query
      \<or> fieldIncludes sops (parent_user_id_number order) query
      \<or> (case parent_user_email order of None \<Rightarrow> False | Some e \<Rightarrow> fieldIncludes sops e query)
      \<or> (case client_imo_id order of None \<Rightarrow> False | Some c \<Rightarrow> fieldIncludes sops c query))"

definition filteredOrders :: "StringOps \<Rightarrow> Dashboard \<Rightarrow> Order list" where
  "filteredOrders sops st =
     filter (\<lambda>order. if getOrderStatus sops order \<noteq> ''PENDING'' then False
                     else orderMatches sops (toLowerCase sops (searchQuery st)) order)
       (pendingOrders st)"

definition filteredRejectedOrders :: "StringOps \<Rightarrow> Dashboard \<Rightarrow> Order list" where
  "filteredRejectedOrders sops st =
     filter (\<lambda>order. if getOrderStatus sops order \<noteq> ''REJECTED'' then False
                     else orderMatches sops (toLowerCase sops (searchQuery st)) order)
       (rejectedOrders st)"

text \<open>
  The \<open>reduce\<close> that groups a list by \<open>user_id\<close>: a new key gets an empty group, and the
  order is pushed onto the group of its key. The tab renders every order of every group.
  The model keeps the groups in the order their keys first occur; \<open>Object.entries\<close>
  lists them by ascending key, which no property below depends on.
\<close>

definition pushOrder :: "(int \<times> Order list) list \<Rightarrow> Order \<Rightarrow> (int \<times> Order list) list" where
  "pushOrder acc order =
     (let key = order_user_id order;
          acc1 = (if map_of acc key = None then acc @ [(key, [])] else acc)
      in map (\<lambda>(k, group). if k = key then (k, group @ [order]) else (k, group)) acc1)"

definition groupByUser :: "Order list \<Rightarrow> (int \<times> Order list) list" where
  "groupByUser orders = foldl pushOrder [] orders"

definition ordersByUser :: "StringOps \<Rightarrow> Dashboard \<Rightarrow> (int \<times> Order list) list" where
  "ordersByUser sops st = groupByUser (filteredOrders sops st)"

definition rejectedOrdersByUser :: "StringOps \<Rightarrow> Dashboard \<Rightarrow> (int \<times> Order list) list" where
  "rejectedOrdersByUser sops st = groupByUser (filteredRejectedOrders sops st)"

definition renderedOrders :: "(int \<times> Order list) list \<Rightarrow> Order list" where
  "renderedOrders groups = concat (map snd groups)"

text \<open>Values for the examples: an order with a status, and a dashboard holding orders.\<close>

definition orderWith :: "int \<Rightarrow> int \<Rightarrow> string option \<Rightarrow> Order" where
  "orderWith i uid s =
     \<lparr>order_id = i, order_number = ''ORD'', order_user_id = uid, parent_user_name = ''Ann'',
      parent_user_id_number = ''900'', parent_user_email = None, customer_name = None,
      client_imo_id = None, client_profile_photo = None, diamond_amount = 10, quantity = 1,
      points_used = 10, status = s, order_created_at = ''2024-01-01''\<rparr>"

definition dashboardWith :: "Order list \<Rightarrow> Order list \<Rightarrow> string \<Rightarrow> Dashboard" where
  "dashboardWith pending rejected amountText =
     \<lparr>loading = False, toast = None, searchQuery = [], pendingOrders = pending,
      rejectedOrders = rejected, pointsAmount = amountText, pointsDescription = [],
      lastOrderIdsRef = [], hasLoadedOrdersRef = False\<rparr>"

section \<open>The login page\<close>

text \<open>
  The response of \<open>POST /auth/login\<close> carries \<open>token\<close> and \<open>user\<close>. A response without a
  user makes \<open>user.role\<close> throw, which the handler catches like a failed request; a user
  without a role is not an administrator.
\<close>

record LoginUser =
  role :: "string option"

record LoginData =
  token :: string
  user :: "LoginUser option"

record LoginForm =
  form_idNumber :: string
  form_password :: string

record LoginPage =
  formData :: LoginForm
  login_loading :: bool
  login_error :: string

definition handleSubmit :: "LoginData ApiResult \<Rightarrow> LoginPage \<Rightarrow> LoginPage \<times> Effect list" where
  "handleSubmit response st =
     (let st0 = st\<lparr>login_error := [], login_loading := True\<rparr>;
          post = Api (PostAuthLogin (form_idNumber (formData st)) (form_password (formData st)))
      in case response of
           Resolved d \<Rightarrow>
             (case user d of
                None \<Rightarrow> (st0\<lparr>login_error := ''Login failed'', login_loading := False\<rparr>, [post])
              | Some u \<Rightarrow>
                  if role u \<noteq> Some ''ADMIN''
                  then (st0\<lparr>login_error := ''Admin access required'', login_loading := False\<rparr>,
                        [post])
                  else (st0\<lparr>login_loading := False\<rparr>,
                        [post, SetToken (token d), RouterPush ''/dashboard'']))
         | Rejected err \<Rightarrow>
             (st0\<lparr>login_error := orElse err ''Login failed'', login_loading := False\<rparr>, [post]))"

text \<open>The returned user's role equals \<open>ADMIN\<close>.\<close>

definition isAdmin :: "LoginData \<Rightarrow> bool" where
  "isAdmin d = (case user d of None \<Rightarrow> False | Some u \<Rightarrow> role u = Some ''ADMIN'')"

definition loginPage :: LoginPage where
  "loginPage = \<lparr>formData = \<lparr>form_idNumber = ''1001'', form_password = ''pw''\<rparr>,
                login_loading = False, login_error = []\<rparr>"

section \<open>The user page\<close>

text \<open>
  \<open>handleAddPoints\<close> of the user page asks for the amount and the description with
  \<open>prompt\<close>, which returns any text the user types or \<open>null\<close>. The page state kept here is
  the loading flag, the toast, the route's user id, the loaded user's id and name, and
  the receipt; \<open>now\<close> is the text of \<open>new Date().toISOString()\<close>.
\<close>

record AddPointsReceipt =
  receipt_id :: int
  receipt_user_id :: int
  receiver_name :: string
  receipt_amount :: int
  receipt_description :: "string option"
  receipt_status :: string
  receipt_created_at :: string
  receipt_admin_name :: "string option"

record UserDetails =
  details_id :: int
  details_name :: string

record PointsData =
  balanceText :: string
  receipt :: "AddPointsReceipt option"

record UserDetailsPage = PageBase +
  routeUserId :: string
  userDetails :: "UserDetails option"
  addPointsReceipt :: "AddPointsReceipt option"

definition handleAddPoints_user ::
  "string option \<Rightarrow> string option \<Rightarrow> PointsData ApiResult \<Rightarrow> string \<Rightarrow> UserDetailsPage
     \<Rightarrow> UserDetailsPage \<times> Effect list" where
  "handleAddPoints_user amountAnswer descriptionAnswer response now st =
     (let invalid = (st\<lparr>toast := Some \<lparr>message = ''Please enter a valid amount'',
                                         toastType = Error\<rparr>\<rparr>,
                     [Prompt ''Enter points amount:''])
      in case amountAnswer of
           None \<Rightarrow> invalid
         | Some amt \<Rightarrow>
             (case parseInt amt of
                None \<Rightarrow> invalid
              | Some a \<Rightarrow>
                  if amt = [] \<or> a \<le> 0 then invalid
                  else
                    (let descriptionValue = orElse descriptionAnswer ''Admin added points'';
                         sent = [Prompt ''Enter points amount:'',
                                 Prompt ''Enter description (optional):'',
                                 Api (PostUserPoints (TextId (routeUserId st)) a descriptionValue)]
                     in case response of
                          Resolved d \<Rightarrow>
                            (st\<lparr>toast := Some \<lparr>message =
                                                   ''Points added successfully! New balance: ''
                                                   @ balanceText d,
                                                toastType = Success\<rparr>,
                                addPointsReceipt :=
                                  Some (case receipt d of
                                          Some r \<Rightarrow> r
                                        | None \<Rightarrow>
                                            \<lparr>receipt_id = 0,
                                             receipt_user_id =
                                               (case userDetails st of None \<Rightarrow> 0
                                                | Some u \<Rightarrow> details_id u),
                                             receiver_name =
                                               (case userDetails st of None \<Rightarrow> ''User''
                                                | Some u \<Rightarrow> if details_name u = [] then ''User''
                                                            else details_name u),
                                             receipt_amount = a,
                                             receipt_description = Some descriptionValue,
                                             receipt_status = ''SUCCESS'',
                                             receipt_created_at = now,
                                             receipt_admin_name = None\<rparr>)\<rparr>,
                             sent @ [Call_fetchUserDetails])
                        | Rejected err \<Rightarrow>
                            (st\<lparr>toast := Some \<lparr>message = orElse err ''Failed to add points'',
                                                toastType = Error\<rparr>\<rparr>,
                             sent))))"

definition userPage :: UserDetailsPage where
  "userPage = \<lparr>loading = False, toast = None, routeUserId = ''7'', userDetails = None,
               addPointsReceipt = None\<rparr>"

section \<open>The search filters\<close>

lemma dropWhile_hd: "s \<noteq> [] \<Longrightarrow> \<not> P (hd s) \<Longrightarrow> dropWhile P s = s"
  by (cases s) auto

lemma trim_id: "s \<noteq> [] \<Longrightarrow> \<not> isWhiteSpace (hd s) \<Longrightarrow> \<not> isWhiteSpace (last s) \<Longrightarrow> trim s = s"
  by (simp add: trim_def dropWhile_hd hd_rev)

lemma includes_char: "includes_str s [c] = (c \<in> set s)"
  by (induction s) auto

lemma set_dropWhile_keeps: "c \<in> set s \<Longrightarrow> \<not> P c \<Longrightarrow> c \<in> set (dropWhile P s)"
  by (induction s) auto

lemma at_in_trim: "CHR ''@'' \<in> set s \<Longrightarrow> CHR ''@'' \<in> set (trim s)"
  unfolding trim_def by (simp add: set_dropWhile_keeps isWhiteSpace_def)

lemma isDigit_not_ws: "isDigit c \<Longrightarrow> \<not> isWhiteSpace c"
  by (auto simp: isDigit_def isWhiteSpace_def)

lemma numeric_trim: "numeric s \<Longrightarrow> trim s = s"
  by (rule trim_id) (auto simp: numeric_def list_all_iff intro!: isDigit_not_ws)

lemma isDigit_radix10: "isDigit c \<Longrightarrow> isRadixDigit 10 c"
  by (auto simp: isDigit_def isRadixDigit_def digitValue_def Let_def)

lemma isDigit_value: "isDigit c \<Longrightarrow> digitValue c = Some (of_char c - 48)"
  by (auto simp: isDigit_def digitValue_def Let_def)

lemma digitsValue_decimal_from:
  "list_all isDigit s \<Longrightarrow>
   foldl (\<lambda>acc c. acc * 10 + (case digitValue c of Some d \<Rightarrow> d | None \<Rightarrow> 0)) a s
   = foldl (\<lambda>acc c. acc * 10 + ((of_char c :: nat) - 48)) a s"
  by (induction s arbitrary: a) (auto simp: isDigit_value)

lemma digitsValue_decimal: "list_all isDigit s \<Longrightarrow> digitsValue 10 s = decimalValue s"
  by (simp add: digitsValue_def decimalValue_def digitsValue_decimal_from)

lemma numeric_parseInt: 
  assumes "numeric s"
  shows "parseInt s = Some (int (decimalValue s))"
proof -
  from assms obtain c cs where s: "s = c # cs" and c: "isDigit c" and cs: "list_all isDigit cs"
    by (cases s) (auto simp: numeric_def)
  have nows: "\<not> isWhiteSpace c" using c by (rule isDigit_not_ws)
  have nosign: "c \<noteq> CHR ''+''" "c \<noteq> CHR ''-''" using c by (auto simp: isDigit_def)
  have dw: "dropWhile isWhiteSpace s = s" using s nows by simp
  have sg: "(case s of c # _ \<Rightarrow> if c = CHR ''-'' then - 1 else 1 | [] \<Rightarrow> (1::int)) = 1"
    using s nosign by simp
  have s1: "(case s of c # cs \<Rightarrow> if c = CHR ''+'' \<or> c = CHR ''-'' then cs else s | [] \<Rightarrow> s) = s"
    using s nosign by simp
  have nohex: "\<not> (prefix ''0x'' s \<or> prefix ''0X'' s)"
    using cs s by (cases cs) (auto simp: isDigit_def)
  have all: "list_all isDigit s" using assms by (simp add: numeric_def)
  then have tw: "takeWhile (isRadixDigit 10) s = s"
    by (auto simp: takeWhile_eq_all_conv list_all_iff isDigit_radix10)
  have ne: "s \<noteq> []" using s by simp
  show ?thesis
    unfolding parseInt_def Let_def dw sg s1
    using nohex ne all by (simp add: tw digitsValue_decimal)
qed

lemma numeric_no_at: "numeric s \<Longrightarrow> \<not> includes_str s ''@''"
  by (auto simp: includes_char numeric_def list_all_iff isDigit_def)

lemma requests_fetchTransactionsA:
  "snd (fetchTransactionsA response st) = [GetTransactionsAll (searchParamsA (searchQuery st))]"
  by (simp add: fetchTransactionsA_def Let_def)

lemma requests_autoRefresh:
  "snd (autoRefresh response st) = [GetTransactionsAll (searchParamsA (searchQuery st))]"
  by (simp add: autoRefresh_def Let_def)

lemma requests_fetchTransactionsB:
  "snd (fetchTransactionsB response st) = [GetTransactionsAll (searchParamsB (searchQuery st))]"
  by (simp add: fetchTransactionsB_def Let_def)

lemma email_searchParamsA: "email (searchParamsA q) = None"
  by (simp add: searchParamsA_def Let_def)

text \<open>
  Claim C1, as amended. On page B a search text that contains \<open>@\<close> is sent as the
  \<open>email\<close> filter, trimmed, and neither \<open>userId\<close> nor \<open>idNumber\<close> is set. Page A has no
  email filter: whatever the search text, the requests of \<open>fetchTransactions\<close> and of the
  refresh timer leave \<open>email\<close> unset.
\<close>

theorem email_search_pageB:
  "CHR ''@'' \<in> set (searchQuery st) \<Longrightarrow>
     snd (fetchTransactionsB response st)
       = [GetTransactionsAll \<lparr>limit = 500, userId = None, idNumber = None,
                               email = Some (trim (searchQuery st))\<rparr>]
     \<and> snd (fetchTransactionsA responseA stA) = [GetTransactionsAll (searchParamsA (searchQuery stA))]
     \<and> snd (autoRefresh responseA stA) = [GetTransactionsAll (searchParamsA (searchQuery stA))]
     \<and> email (searchParamsA (searchQuery stA)) = None"
proof -
  assume a: "CHR ''@'' \<in> set (searchQuery st)"
  then have t: "CHR ''@'' \<in> set (trim (searchQuery st))" by (rule at_in_trim)
  then have ne: "trim (searchQuery st) \<noteq> []" by auto
  have inc: "includes_str (trim (searchQuery st)) ''@''" using t by (simp add: includes_char)
  have "searchParamsB (searchQuery st)
          = \<lparr>limit = 500, userId = None, idNumber = None, email = Some (trim (searchQuery st))\<rparr>"
    using ne inc by (simp add: searchParamsB_def Let_def)
  then show ?thesis
    by (simp add: requests_fetchTransactionsB requests_fetchTransactionsA requests_autoRefresh
        email_searchParamsA)
qed

text \<open>The search \<open>a@b.c\<close> on page B.\<close>

theorem email_search_pageB_witness:
  "CHR ''@'' \<in> set (searchQuery (searching ''a@b.c''))
   \<and> snd (fetchTransactionsB (Rejected None) (searching ''a@b.c''))
       = [GetTransactionsAll \<lparr>limit = 500, userId = None, idNumber = None, email = Some ''a@b.c''\<rparr>]"
  using email_search_pageB [of "searching ''a@b.c''" "Rejected None" "Rejected None" "searching ''a@b.c''"]
  by (simp add: searching_def trim_def isWhiteSpace_def)

text \<open>
  Claim C1 as stated fails on page A: the search \<open>a@b.c\<close> contains \<open>@\<close>, and the request
  carries it as \<open>idNumber\<close> and sets no \<open>email\<close>.
\<close>

theorem email_search_pageA_counterexample:
  "CHR ''@'' \<in> set ''a@b.c''
   \<and> snd (fetchTransactionsA (Rejected None) (searching ''a@b.c''))
       = [GetTransactionsAll \<lparr>limit = 500, userId = None, idNumber = Some ''a@b.c'', email = None\<rparr>]"
  by (simp add: fetchTransactionsA_def searching_def searchParamsA_def trim_def isWhiteSpace_def
      parseInt_def isRadixDigit_def digitValue_def)

text \<open>
  Claim C5. A search text of one to three decimal digits whose value lies strictly
  between 0 and 10000 is sent as the \<open>userId\<close> filter, with that value, by
  \<open>fetchTransactions\<close> of both pages and by the refresh timer of page A; no other filter
  is set.
\<close>

theorem short_numeric_search_sets_userId:
  assumes "numeric (searchQuery st)" and "length (searchQuery st) \<le> 3"
    and "0 < decimalValue (searchQuery st)" and "decimalValue (searchQuery st) < 10000"
  shows "snd (fetchTransactionsA response st)
           = [GetTransactionsAll \<lparr>limit = 500, userId = Some (int (decimalValue (searchQuery st))),
                                   idNumber = None, email = None\<rparr>]
       \<and> snd (autoRefresh response st)
           = [GetTransactionsAll \<lparr>limit = 500, userId = Some (int (decimalValue (searchQuery st))),
                                   idNumber = None, email = None\<rparr>]
       \<and> snd (fetchTransactionsB response st)
           = [GetTransactionsAll \<lparr>limit = 500, userId = Some (int (decimalValue (searchQuery st))),
                                   idNumber = None, email = None\<rparr>]"
proof -
  let ?q = "searchQuery st"
  have t: "trim ?q = ?q" using assms(1) by (rule numeric_trim)
  have ne: "?q \<noteq> []" using assms(1) by (simp add: numeric_def)
  have p: "parseInt ?q = Some (int (decimalValue ?q))" using assms(1) by (rule numeric_parseInt)
  have noat: "\<not> includes_str ?q ''@''" using assms(1) by (rule numeric_no_at)
  have A: "searchParamsA ?q = \<lparr>limit = 500, userId = Some (int (decimalValue ?q)),
                                   idNumber = None, email = None\<rparr>"
    using t ne p assms(2,3,4) by (simp add: searchParamsA_def Let_def)
  have B: "searchParamsB ?q = \<lparr>limit = 500, userId = Some (int (decimalValue ?q)),
                                   idNumber = None, email = None\<rparr>"
    using t ne p noat assms(2,3,4) by (simp add: searchParamsB_def Let_def)
  show ?thesis
    by (simp add: requests_fetchTransactionsA requests_autoRefresh requests_fetchTransactionsB A B)
qed

text \<open>The search \<open>42\<close>.\<close>

theorem short_numeric_search_sets_userId_witness:
  "numeric ''42'' \<and> length ''42'' \<le> 3 \<and> 0 < decimalValue ''42'' \<and> decimalValue ''42'' < 10000
   \<and> snd (fetchTransactionsB (Rejected None) (searching ''42''))
       = [GetTransactionsAll \<lparr>limit = 500, userId = Some 42, idNumber = None, email = None\<rparr>]"
  using short_numeric_search_sets_userId [of "searching ''42''" "Rejected None"]
  by (simp add: searching_def numeric_def isDigit_def decimalValue_def)

text \<open>
  Claim C6, as amended. When the trimmed search text is not empty, contains no \<open>@\<close>, and
  is longer than three characters or is not read by \<open>parseInt\<close> as a positive integer,
  both pages send the trimmed text as the \<open>idNumber\<close> filter and set no other filter.
  The 13-digit search \<open>1234567890123\<close> is sent as \<open>idNumber\<close>.
\<close>

theorem other_search_sets_idNumber:
  "(trim (searchQuery st) \<noteq> [] \<and> CHR ''@'' \<notin> set (trim (searchQuery st))
    \<and> (3 < length (trim (searchQuery st))
        \<or> (case parseInt (trim (searchQuery st)) of None \<Rightarrow> True | Some n \<Rightarrow> n \<le> 0))
    \<longrightarrow> snd (fetchTransactionsA response st)
          = [GetTransactionsAll \<lparr>limit = 500, userId = None,
                                  idNumber = Some (trim (searchQuery st)), email = None\<rparr>]
        \<and> snd (fetchTransactionsB response st)
          = [GetTransactionsAll \<lparr>limit = 500, userId = None,
                                  idNumber = Some (trim (searchQuery st)), email = None\<rparr>])
   \<and> snd (fetchTransactionsB response (st\<lparr>searchQuery := ''1234567890123''\<rparr>))
       = [GetTransactionsAll \<lparr>limit = 500, userId = None, idNumber = Some ''1234567890123'',
                               email = None\<rparr>]"
proof -
  let ?q = "trim (searchQuery st)"
  have general: "searchParamsA (searchQuery st)
            = \<lparr>limit = 500, userId = None, idNumber = Some ?q, email = None\<rparr>
        \<and> searchParamsB (searchQuery st)
            = \<lparr>limit = 500, userId = None, idNumber = Some ?q, email = None\<rparr>"
    if "?q \<noteq> []" and "CHR ''@'' \<notin> set ?q"
      and "3 < length ?q \<or> (case parseInt ?q of None \<Rightarrow> True | Some n \<Rightarrow> n \<le> 0)"
    using that
    by (auto simp: searchParamsA_def searchParamsB_def Let_def includes_char split: option.splits)
  have example: "searchParamsB ''1234567890123''
            = \<lparr>limit = 500, userId = None, idNumber = Some ''1234567890123'', email = None\<rparr>"
    by (simp add: searchParamsB_def trim_def isWhiteSpace_def parseInt_def isRadixDigit_def
        digitValue_def digitsValue_def)
  show ?thesis
    using general example
    by (simp add: requests_fetchTransactionsA requests_fetchTransactionsB)
qed

text \<open>The 13-digit search on page A.\<close>

theorem other_search_sets_idNumber_witness:
  "trim ''1234567890123'' \<noteq> [] \<and> CHR ''@'' \<notin> set (trim ''1234567890123'')
   \<and> 3 < length (trim ''1234567890123'')
   \<and> snd (fetchTransactionsA (Rejected None) (searching ''1234567890123''))
       = [GetTransactionsAll \<lparr>limit = 500, userId = None, idNumber = Some ''1234567890123'',
                               email = None\<rparr>]"
  using other_search_sets_idNumber [of "searching ''1234567890123''" "Rejected None"]
  by (simp add: searching_def trim_def isWhiteSpace_def)

text \<open>
  Claim C6 as stated fails on a search text of three spaces: it is not empty, has no
  \<open>@\<close> and is not numeric, and the request carries no filter at all, because the page
  tests the trimmed text.
\<close>

theorem blank_search_counterexample:
  "''   '' \<noteq> [] \<and> CHR ''@'' \<notin> set ''   '' \<and> \<not> numeric ''   ''
   \<and> snd (fetchTransactionsB (Rejected None) (searching ''   ''))
       = [GetTransactionsAll \<lparr>limit = 500, userId = None, idNumber = None, email = None\<rparr>]"
  by (simp add: fetchTransactionsB_def searching_def searchParamsB_def trim_def isWhiteSpace_def
      numeric_def isDigit_def)

section \<open>Orders and login\<close>

text \<open>
  Claim C7. Called with \<open>REJECTED\<close>, \<open>handleOrderStatus\<close> first shows the confirmation dialog.
  The \<open>PATCH\<close> follows the dialog and only when the user confirmed; when the user declined,
  the dialog is the only effect and the state is returned unchanged.
\<close>

theorem reject_order_asks_first:
  "snd (handleOrderStatus confirm response orderId REJECTED st)
     = Confirm rejectQuestion
       # (if confirm rejectQuestion
          then Api (PatchOrderStatus orderId REJECTED)
               # (case response of Resolved u \<Rightarrow> [Call_fetchData] | Rejected err \<Rightarrow> [])
          else [])
   \<and> (\<not> confirm rejectQuestion \<longrightarrow>
        handleOrderStatus confirm response orderId REJECTED st = (st, [Confirm rejectQuestion]))"
  by (simp add: handleOrderStatus_def Let_def split: ApiResult.splits)

text \<open>A user who declines.\<close>

theorem reject_order_asks_first_witness:
  "\<not> (\<lambda>q. False) rejectQuestion
   \<and> handleOrderStatus (\<lambda>q. False) (Resolved ()) 3 REJECTED (dashboardWith [] [] [])
       = (dashboardWith [] [] [], [Confirm rejectQuestion])"
  using reject_order_asks_first [of "\<lambda>q. False" "Resolved ()" 3 "dashboardWith [] [] []"]
  by simp

text \<open>
  Claim C9. Called with \<open>COMPLETED\<close>, \<open>handleOrderStatus\<close> sends the \<open>PATCH\<close> as its first
  effect, whatever the user would answer to a dialog; a confirmation dialog is among the
  effects of a call exactly when the status is \<open>REJECTED\<close>.
\<close>

theorem complete_order_not_asked:
  "snd (handleOrderStatus confirm response orderId COMPLETED st)
     = Api (PatchOrderStatus orderId COMPLETED)
       # (case response of Resolved u \<Rightarrow> [Call_fetchData] | Rejected err \<Rightarrow> [])
   \<and> handleOrderStatus confirm response orderId COMPLETED st
     = handleOrderStatus confirm' response orderId COMPLETED st
   \<and> (Confirm q \<in> set (snd (handleOrderStatus confirm response orderId s st))
        \<longleftrightarrow> s = REJECTED \<and> q = rejectQuestion)"
  by (cases s; cases response) (auto simp: handleOrderStatus_def Let_def)

text \<open>Completing and rejecting order 3.\<close>

theorem complete_order_not_asked_witness:
  "snd (handleOrderStatus (\<lambda>q. False) (Resolved ()) 3 COMPLETED (dashboardWith [] [] []))
     = [Api (PatchOrderStatus 3 COMPLETED), Call_fetchData]
   \<and> Confirm rejectQuestion
       \<in> set (snd (handleOrderStatus (\<lambda>q. True) (Resolved ()) 3 REJECTED (dashboardWith [] [] [])))"
  using complete_order_not_asked [of "\<lambda>q. False" "Resolved ()" 3 "dashboardWith [] [] []"]
    complete_order_not_asked [where q = rejectQuestion and confirm = "\<lambda>q. True" and response = "Resolved ()" and orderId = 3 and s = REJECTED and st = "dashboardWith [] [] []"]
  by simp

text \<open>
  Claim C8. After a login response the token is stored and the router goes to the
  dashboard exactly when the returned user's role is \<open>ADMIN\<close>, and then no error is
  shown; otherwise the request is the only effect and an error is shown. A failed
  request stores nothing and shows an error.
\<close>

theorem login_only_for_admin:
  "snd (handleSubmit (Resolved d) st)
     = Api (PostAuthLogin (form_idNumber (formData st)) (form_password (formData st)))
       # (if isAdmin d then [SetToken (token d), RouterPush ''/dashboard''] else [])
   \<and> (\<not> isAdmin d \<longrightarrow> login_error (fst (handleSubmit (Resolved d) st)) \<noteq> [])
   \<and> (isAdmin d \<longrightarrow> login_error (fst (handleSubmit (Resolved d) st)) = [])
   \<and> snd (handleSubmit (Rejected err) st)
     = [Api (PostAuthLogin (form_idNumber (formData st)) (form_password (formData st)))]
   \<and> login_error (fst (handleSubmit (Rejected err) st)) \<noteq> []"
  by (auto simp: handleSubmit_def isAdmin_def Let_def orElse_def split: option.splits)

text \<open>A login as \<open>USER\<close> and a login as \<open>ADMIN\<close>.\<close>

theorem login_only_for_admin_witness:
  "\<not> isAdmin \<lparr>token = ''t1'', user = Some \<lparr>role = Some ''USER''\<rparr>\<rparr>
   \<and> handleSubmit (Resolved \<lparr>token = ''t1'', user = Some \<lparr>role = Some ''USER''\<rparr>\<rparr>) loginPage
       = (loginPage\<lparr>login_error := ''Admin access required''\<rparr>, [Api (PostAuthLogin ''1001'' ''pw'')])
   \<and> isAdmin \<lparr>token = ''t2'', user = Some \<lparr>role = Some ''ADMIN''\<rparr>\<rparr>
   \<and> snd (handleSubmit (Resolved \<lparr>token = ''t2'', user = Some \<lparr>role = Some ''ADMIN''\<rparr>\<rparr>) loginPage)
       = [Api (PostAuthLogin ''1001'' ''pw''), SetToken ''t2'', RouterPush ''/dashboard'']"
  using login_only_for_admin [of "\<lparr>token = ''t1'', user = Some \<lparr>role = Some ''USER''\<rparr>\<rparr>" loginPage]
    login_only_for_admin [of "\<lparr>token = ''t2'', user = Some \<lparr>role = Some ''ADMIN''\<rparr>\<rparr>" loginPage]
  by (simp add: isAdmin_def handleSubmit_def loginPage_def)

section \<open>The order tabs\<close>

lemma map_of_None_keys: "(map_of acc k = None) = (k \<notin> fst ` set acc)"
  by (simp add: map_of_eq_None_iff)

lemma rendered_append: "renderedOrders (xs @ ys) = renderedOrders xs @ renderedOrders ys"
  by (simp add: renderedOrders_def)

lemma rendered_push_present:
  "k \<in> fst ` set acc \<Longrightarrow>
   set (renderedOrders (map (\<lambda>(k', group). if k' = k then (k', group @ [order]) else (k', group)) acc))
     = insert order (set (renderedOrders acc))"
proof (induction acc)
  case Nil
  then show ?case by simp
next
  case (Cons a acc)
  obtain k' g where a: "a = (k', g)" by (cases a)
  show ?case
  proof (cases "k \<in> fst ` set acc")
    case True
    with Cons.IH a show ?thesis by (auto simp: renderedOrders_def)
  next
    case False
    then have same: "map (\<lambda>(k', group). if k' = k then (k', group @ [order]) else (k', group)) acc = acc"
      by (induction acc) auto
    from False Cons.prems a have "k' = k" by auto
    with same a show ?thesis by (auto simp: renderedOrders_def)
  qed
qed

lemma rendered_pushOrder:
  "set (renderedOrders (pushOrder acc order)) = insert order (set (renderedOrders acc))"
proof (cases "order_user_id order \<in> fst ` set acc")
  case True
  then show ?thesis
    by (simp add: pushOrder_def Let_def map_of_None_keys rendered_push_present)
next
  case False
  have "order_user_id order \<in> fst ` set (acc @ [(order_user_id order, [])])" by simp
  from rendered_push_present [OF this, of order]
  show ?thesis using False
    by (simp add: pushOrder_def Let_def map_of_None_keys rendered_append renderedOrders_def)
qed

lemma rendered_foldl:
  "set (renderedOrders (foldl pushOrder acc orders)) = set (renderedOrders acc) \<union> set orders"
  by (induction orders arbitrary: acc) (auto simp: rendered_pushOrder)

lemma rendered_groupByUser: "set (renderedOrders (groupByUser orders)) = set orders"
proof -
  have "renderedOrders [] = []" by (simp add: renderedOrders_def)
  then show ?thesis
    using rendered_foldl [of "[]" orders] by (simp add: groupByUser_def)
qed

lemma stored_rejected:
  "rejectedOrders (fst (fetchData sops (Resolved d) st))
     = filter (\<lambda>order. getOrderStatus sops order = ''REJECTED'') (orEmpty (rejectedOrdersData d))"
  by (simp add: fetchData_def Let_def)

text \<open>
  Claim C10. In every state of the dashboard, and so after every fetch and for every
  search text, each order rendered in the rejected tab has the normalised status
  \<open>REJECTED\<close> and each order rendered in the pending tab has the normalised status
  \<open>PENDING\<close>, whatever the endpoints returned. The list that \<open>fetchData\<close> stores from
  \<open>/orders/rejected\<close> holds orders of status \<open>REJECTED\<close> only.
\<close>

theorem rendered_orders_have_their_status:
  "(\<forall>order \<in> set (renderedOrders (rejectedOrdersByUser sops st)).
      getOrderStatus sops order = ''REJECTED'')
   \<and> (\<forall>order \<in> set (renderedOrders (ordersByUser sops st)).
      getOrderStatus sops order = ''PENDING'')
   \<and> (\<forall>order \<in> set (rejectedOrders (fst (fetchData sops (Resolved d) st))).
      getOrderStatus sops order = ''REJECTED'')"
proof (intro conjI ballI)
  fix order assume "order \<in> set (renderedOrders (rejectedOrdersByUser sops st))"
  then have "order \<in> set (filteredRejectedOrders sops st)"
    by (simp only: rejectedOrdersByUser_def rendered_groupByUser)
  then show "getOrderStatus sops order = ''REJECTED''"
    unfolding filteredRejectedOrders_def by (simp split: if_splits)
next
  fix order assume "order \<in> set (renderedOrders (ordersByUser sops st))"
  then have "order \<in> set (filteredOrders sops st)"
    by (simp only: ordersByUser_def rendered_groupByUser)
  then show "getOrderStatus sops order = ''PENDING''"
    unfolding filteredOrders_def by (simp split: if_splits)
next
  fix order assume "order \<in> set (rejectedOrders (fst (fetchData sops (Resolved d) st)))"
  then show "getOrderStatus sops order = ''REJECTED''"
    by (simp add: stored_rejected)
qed

lemma example_pending_status:
  "getOrderStatus ascii (orderWith 1 5 (Some '' pending '')) = ''PENDING''"
  by (simp add: getOrderStatus_def orderWith_def ascii_def asciiUpper_def trim_def isWhiteSpace_def)

lemma example_rejected_status:
  "getOrderStatus ascii (orderWith 2 6 (Some ''rejected'')) = ''REJECTED''"
  by (simp add: getOrderStatus_def orderWith_def ascii_def asciiUpper_def trim_def isWhiteSpace_def)

lemma example_matches: "orderMatches ascii (toLowerCase ascii []) (orderWith i uid s)"
  by (simp add: orderMatches_def ascii_def orderWith_def)

lemma example_filtered:
  "filteredOrders ascii
     (dashboardWith [orderWith 1 5 (Some '' pending ''), orderWith 2 6 (Some ''rejected'')] [] [])
   = [orderWith 1 5 (Some '' pending '')]"
  by (simp add: filteredOrders_def dashboardWith_def example_pending_status
      example_rejected_status example_matches)

text \<open>
  A pending list in which the server also returned a rejected order: the order with
  status \<open>pending\<close> between spaces is rendered, the other is not.
\<close>

theorem rendered_orders_have_their_status_witness:
  "orderWith 1 5 (Some '' pending '')
     \<in> set (renderedOrders (ordersByUser ascii
         (dashboardWith [orderWith 1 5 (Some '' pending ''), orderWith 2 6 (Some ''rejected'')] [] [])))
   \<and> getOrderStatus ascii (orderWith 1 5 (Some '' pending '')) = ''PENDING''
   \<and> orderWith 2 6 (Some ''rejected'')
     \<notin> set (renderedOrders (ordersByUser ascii
         (dashboardWith [orderWith 1 5 (Some '' pending ''), orderWith 2 6 (Some ''rejected'')] [] [])))"
proof -
  let ?st = "dashboardWith [orderWith 1 5 (Some '' pending ''), orderWith 2 6 (Some ''rejected'')] [] []"
  have shown: "set (renderedOrders (ordersByUser ascii ?st)) = {orderWith 1 5 (Some '' pending '')}"
    by (simp add: ordersByUser_def rendered_groupByUser example_filtered)
  have all: "\<forall>order \<in> set (renderedOrders (ordersByUser ascii ?st)).
               getOrderStatus ascii order = ''PENDING''"
    using rendered_orders_have_their_status [of ascii ?st] by blast
  have differ: "orderWith 2 6 (Some ''rejected'') \<noteq> orderWith 1 5 (Some '' pending '')"
    by (simp add: orderWith_def)
  show ?thesis using shown all differ by simp
qed

section \<open>Adding points\<close>

text \<open>
  Claim C2 at the answer \<open>12abc\<close> on the user page: the text is not numeric, and the
  handler sends the \<open>POST\<close> with amount 12.
\<close>

theorem add_points_reads_leading_digits:
  "\<not> numeric ''12abc''
   \<and> snd (handleAddPoints_user (Some ''12abc'') None (Rejected None) now userPage)
       = [Prompt ''Enter points amount:'', Prompt ''Enter description (optional):'',
          Api (PostUserPoints (TextId ''7'') 12 ''Admin added points'')]"
  by (simp add: handleAddPoints_user_def userPage_def parseInt_def isWhiteSpace_def
      isRadixDigit_def digitValue_def digitsValue_def orElse_def numeric_def isDigit_def)

text \<open>
  What the two handlers do check: an answer from which \<open>parseInt\<close> reads no positive
  integer is rejected without a request, and a numeric answer of positive value is sent.
\<close>

lemma add_points_rejected:
  "(case amountAnswer of None \<Rightarrow> True
    | Some t \<Rightarrow> (case parseInt t of None \<Rightarrow> True | Some a \<Rightarrow> a \<le> 0)) \<Longrightarrow>
   snd (handleAddPoints_user amountAnswer descriptionAnswer response now st)
     = [Prompt ''Enter points amount:'']"
  by (auto simp: handleAddPoints_user_def Let_def split: option.splits)

lemma add_points_rejected_dashboard:
  "(case parseInt (pointsAmount st) of None \<Rightarrow> True | Some a \<Rightarrow> a \<le> 0) \<Longrightarrow>
   snd (handleAddPoints uid response st) = []"
  by (auto simp: handleAddPoints_def Let_def split: option.splits)

lemma add_points_numeric_sent:
  "numeric t \<Longrightarrow> 0 < decimalValue t \<Longrightarrow>
   Api (PostUserPoints (TextId (routeUserId st)) (int (decimalValue t))
          (orElse descriptionAnswer ''Admin added points''))
     \<in> set (snd (handleAddPoints_user (Some t) descriptionAnswer response now st))"
  by (cases response) (auto simp: handleAddPoints_user_def Let_def numeric_parseInt numeric_def)

section \<open>The displayed amount\<close>

lemma previousTotalReward_find:
  "previousTotalReward ops txs t i =
     (case List.find (\<lambda>p. user_id p = user_id t \<and> rewardTransaction p) (drop i txs) of
        None \<Rightarrow> num_lit ops 0
      | Some p \<Rightarrow> cumulativeFigure ops p)"
proof (induction ops txs t i rule: previousTotalReward.induct)
  case (1 ops txs t i)
  show ?case
  proof (cases "i < length txs")
    case False
    then show ?thesis by (simp add: previousTotalReward.simps)
  next
    case True
    then have d: "drop i txs = txs ! i # drop (Suc i) txs"
      by (simp add: Cons_nth_drop_Suc)
    show ?thesis
    proof (cases "user_id (txs ! i) = user_id t \<and> isWeeklySaleReward (txs ! i)")
      case False
      with True "1.IH"(2) show ?thesis
        by (subst previousTotalReward.simps) (auto simp: d rewardTransaction_def)
    next
      case hit: True
      show ?thesis
      proof (cases "rewardMatch (descriptionText (txs ! i))")
        case None
        with True hit "1.IH"(1) show ?thesis
          by (subst previousTotalReward.simps) (auto simp: d rewardTransaction_def)
      next
        case (Some g)
        with True hit show ?thesis
          by (subst previousTotalReward.simps)
             (auto simp: d rewardTransaction_def cumulativeFigure_def)
      qed
    qed
  qed
qed

lemma find_filter: "List.find P xs = (case filter P xs of [] \<Rightarrow> None | x # _ \<Rightarrow> Some x)"
  by (induction xs) auto

lemma latest_sorted:
  fixes instant :: "string \<Rightarrow> 't::linorder"
  shows "\<forall>q \<in> set rest. instant (created_at q) \<le> instant (created_at p) \<Longrightarrow>
   foldl (\<lambda>best q. if instant (created_at best) < instant (created_at q) then q else best) p rest = p"
proof (induction rest)
  case Nil
  show ?case by simp
next
  case (Cons q rest)
  have "instant (created_at q) \<le> instant (created_at p)" using Cons.prems by simp
  then have keep: "\<not> instant (created_at p) < instant (created_at q)" by (simp add: not_less)
  have "\<forall>r \<in> set rest. instant (created_at r) \<le> instant (created_at p)"
    using Cons.prems by simp
  then show ?case using Cons.IH keep by simp
qed

lemma latest_of_sorted:
  "sorted_wrt (\<lambda>a b. instant (created_at b) \<le> instant (created_at a)) ps \<Longrightarrow>
   latest instant ps = (case ps of [] \<Rightarrow> None | p # _ \<Rightarrow> Some p)"
  by (cases ps) (simp_all add: latest_def latest_sorted)

lemma rows_from:
  "map (\<lambda>j. txs ! j) (filter (\<lambda>j. Q (txs ! j)) [k..<length txs]) = filter Q (drop k txs)"
proof -
  have "drop k txs = drop k (map (\<lambda>j. txs ! j) [0..<length txs])"
    by (simp add: map_nth)
  also have "\<dots> = map (\<lambda>j. txs ! j) [k..<length txs]"
    by (simp add: drop_map)
  finally have d: "drop k txs = map (\<lambda>j. txs ! j) [k..<length txs]" .
  show ?thesis
    by (subst d) (simp add: filter_map comp_def)
qed

lemma earlier_is_below:
  assumes s: "sortedByRecency instant txs" and i: "i < length txs"
  shows "filter (\<lambda>j. earlierRow instant txs i j \<and> Q j) [0..<length txs]
           = filter Q [Suc i..<length txs]"
proof -
  have ordered: "instant (created_at (txs ! b)) \<le> instant (created_at (txs ! a))"
    if "a < b" and "b < length txs" for a b
    using s that by (simp add: sortedByRecency_def sorted_wrt_iff_nth_less)
  have split: "[0..<length txs] = [0..<i] @ i # [Suc i..<length txs]"
    using i by (metis le_add1 less_imp_add_positive plus_nat.add_0 upt_add_eq_append upt_conv_Cons)
  have above: "\<not> earlierRow instant txs i j" if "j < i" for j
    using ordered [OF that i] that by (auto simp: earlierRow_def)
  have self: "\<not> earlierRow instant txs i i"
    by (simp add: earlierRow_def)
  have below: "earlierRow instant txs i j" if "i < j" and "j < length txs" for j
    using ordered [OF that] that by (auto simp: earlierRow_def)
  have a: "filter (\<lambda>j. earlierRow instant txs i j \<and> Q j) [0..<i] = []"
    using above by (auto simp: filter_empty_conv)
  have b: "filter (\<lambda>j. earlierRow instant txs i j \<and> Q j) [Suc i..<length txs]
             = filter Q [Suc i..<length txs]"
    using below by (auto intro: filter_cong)
  have "filter (\<lambda>j. earlierRow instant txs i j \<and> Q j) [0..<length txs]
          = filter (\<lambda>j. earlierRow instant txs i j \<and> Q j) ([0..<i] @ i # [Suc i..<length txs])"
    using split by simp
  also have "\<dots> = filter Q [Suc i..<length txs]"
    by (simp add: a b self)
  finally show ?thesis .
qed

lemma nearest_is_first_below:
  assumes s: "sortedByRecency instant txs" and i: "i < length txs"
  shows "nearestEarlierReward instant txs i
           = List.find (\<lambda>p. user_id p = user_id (txs ! i) \<and> rewardTransaction p) (drop (Suc i) txs)"
proof -
  let ?Q = "\<lambda>p. user_id p = user_id (txs ! i) \<and> rewardTransaction p"
  have "earlierRewards instant txs i
          = map (\<lambda>j. txs ! j) (filter (\<lambda>j. ?Q (txs ! j)) [Suc i..<length txs])"
    unfolding earlierRewards_def
    using earlier_is_below [OF s i, of "\<lambda>j. ?Q (txs ! j)"] by simp
  then have e: "earlierRewards instant txs i = filter ?Q (drop (Suc i) txs)"
    using rows_from [where txs = txs and Q = ?Q and k = "Suc i"] by simp
  have "sorted_wrt (\<lambda>a b. instant (created_at b) \<le> instant (created_at a)) (drop (Suc i) txs)"
    using s by (simp add: sortedByRecency_def)
  then have "sorted_wrt (\<lambda>a b. instant (created_at b) \<le> instant (created_at a))
               (filter ?Q (drop (Suc i) txs))"
    by (rule sorted_wrt_filter)
  then show ?thesis
    by (simp add: nearestEarlierReward_def e latest_of_sorted find_filter)
qed

lemma displayAmounts_nth:
  "i < length txs \<Longrightarrow> displayAmounts ops txs ! i = displayAmount ops txs (txs ! i) i"
  by (simp add: displayAmounts_def)

lemma displayAmount_reward:
  "isWeeklySaleReward t \<Longrightarrow>
   displayAmount ops txs t i =
     (if num_gt ops (cumulativeFigure ops t) (num_lit ops 0)
      then round2 ops (num_sub ops (cumulativeFigure ops t)
             (case List.find (\<lambda>p. user_id p = user_id t \<and> rewardTransaction p) (drop (Suc i) txs) of
                None \<Rightarrow> num_lit ops 0
              | Some p \<Rightarrow> cumulativeFigure ops p))
      else num_lit ops 0)"
  by (simp add: displayAmount_def Let_def cumulativeFigure_def previousTotalReward_find)

subsection \<open>The examples, evaluated\<close>

lemma floor_numeral_quotient: "\<lfloor>(numeral a :: rat) / numeral b\<rfloor> = numeral a div numeral b"
  using floor_divide_of_int_eq [of "numeral a" "numeral b", where ?'a = rat] by simp

lemma floor_neg_numeral_quotient:
  "\<lfloor>- ((numeral a :: rat) / numeral b)\<rfloor> = - numeral a div numeral b"
  using floor_divide_of_int_eq [of "- numeral a" "numeral b", where ?'a = rat] by simp

lemmas reward_text_defs =
  rewardRow_def rewardTransaction_def isWeeklySaleReward_def descriptionText_def matchHere_def
  isWhiteSpace_def isDigitOrDot_def isDigit_def

lemmas exact_defs =
  exact_def exact_parseFloat_def exact_binop_def decimalValue_def round2_def cumulativeFigure_def
  floor_numeral_quotient floor_neg_numeral_quotient

lemma threeRewards_sorted: "sortedByRecency isoInstant threeRewards"
  by (simp add: sortedByRecency_def threeRewards_def rewardRow_def isoInstant_def
      decimalValue_def isDigit_def)

lemma threeRewards_reward: "rewardTransaction (threeRewards ! 0)"
  by (simp add: threeRewards_def reward_text_defs)

lemma threeRewards_figure: "cumulativeFigure exact (threeRewards ! 0) = Some (25 / 2)"
  by (simp add: threeRewards_def reward_text_defs exact_defs)

lemma threeRewards_spec:
  "specIncrement exact isoInstant threeRewards 0 = Some (9 / 4)"
  by (simp add: threeRewards_def specIncrement_def nearestEarlierReward_def earlierRewards_def
      earlierRow_def latest_def isoInstant_def reward_text_defs exact_defs)

lemma zeroAfterFive_sorted: "sortedByRecency isoInstant zeroAfterFive"
  by (simp add: sortedByRecency_def zeroAfterFive_def rewardRow_def isoInstant_def
      decimalValue_def isDigit_def)

lemma zeroAfterFive_reward: "rewardTransaction (zeroAfterFive ! 0)"
  by (simp add: zeroAfterFive_def reward_text_defs)

lemma zeroAfterFive_spec:
  "specIncrement exact isoInstant zeroAfterFive 0 = Some (- 5)"
  by (simp add: zeroAfterFive_def specIncrement_def nearestEarlierReward_def earlierRewards_def
      earlierRow_def latest_def isoInstant_def reward_text_defs exact_defs)

lemma zeroAfterFive_shown: "displayAmounts exact zeroAfterFive ! 0 = Some 0"
  by (simp add: displayAmounts_def displayAmount_def zeroAfterFive_def reward_text_defs exact_defs)

lemma oneReward_reward: "rewardTransaction (oneReward ! 0)"
  by (simp add: oneReward_def reward_text_defs)

lemma oneReward_alone: "noPriorFound oneReward 0"
  by (simp add: noPriorFound_def oneReward_def)

lemma oneReward_figure: "cumulativeFigure exact (oneReward ! 0) = Some 5"
  by (simp add: oneReward_def reward_text_defs exact_defs)

lemma oneReward_shown: "displayAmounts exact oneReward ! 0 = Some 5"
  by (simp add: displayAmounts_def displayAmount_def oneReward_def previousTotalReward.simps
      reward_text_defs exact_defs)

subsection \<open>The reward increment\<close>

text \<open>
  Claim C3, as amended. In a list sorted descending by recency, rows of equal creation
  time allowed, for a reward transaction whose cumulative figure is greater than 0, the
  displayed amount is the figure minus the figure of the nearest earlier reward
  transaction of the same user in the list, or the full figure when there is none,
  rounded to two decimals. The theorem holds for every interpretation of the number
  operations in which subtracting the literal 0 leaves the figure as it is (the last
  hypothesis), as it does for JavaScript numbers.
\<close>

theorem reward_increment:
  assumes "sortedByRecency instant txs" and "i < length txs"
    and "rewardTransaction (txs ! i)"
    and "num_gt ops (cumulativeFigure ops (txs ! i)) (num_lit ops 0)"
    and "num_sub ops (cumulativeFigure ops (txs ! i)) (num_lit ops 0) = cumulativeFigure ops (txs ! i)"
  shows "displayAmounts ops txs ! i = specIncrement ops instant txs i"
proof -
  have w: "isWeeklySaleReward (txs ! i)" using assms(3) by (simp add: rewardTransaction_def)
  show ?thesis
    using assms(2,4,5)
    by (simp add: displayAmounts_nth displayAmount_reward [OF w] specIncrement_def
        nearest_is_first_below [OF assms(1,2)] split: option.splits)
qed

text \<open>
  The newest of three rewards: 12.5 for user 1, listed above a reward of another user
  of the same day, after 10.25 for user 1 two days before; the amount shown is 2.25.
\<close>

theorem reward_increment_witness:
  "sortedByRecency isoInstant threeRewards \<and> 0 < length threeRewards
   \<and> rewardTransaction (threeRewards ! 0)
   \<and> num_gt exact (cumulativeFigure exact (threeRewards ! 0)) (num_lit exact 0)
   \<and> displayAmounts exact threeRewards ! 0 = Some (9 / 4)"
proof -
  have len: "0 < length threeRewards" by (simp add: threeRewards_def)
  have pos: "num_gt exact (cumulativeFigure exact (threeRewards ! 0)) (num_lit exact 0)"
    by (simp add: threeRewards_figure) (simp add: exact_def)
  have sub: "num_sub exact (cumulativeFigure exact (threeRewards ! 0)) (num_lit exact 0)
               = cumulativeFigure exact (threeRewards ! 0)"
    by (simp add: threeRewards_figure) (simp add: exact_def exact_binop_def)
  show ?thesis
    using reward_increment [OF threeRewards_sorted len threeRewards_reward pos sub]
      threeRewards_sorted len threeRewards_reward pos
    by (simp add: threeRewards_spec)
qed

text \<open>
  Claim C3 as stated fails where the cumulative figure is 0: the newest row reads
  \<open>Reward: 0\<close> and the same user's row of the day before reads \<open>Reward: 5\<close>. The page
  shows 0, because it computes the difference only for a positive figure; the claim
  gives 0 minus 5.
\<close>

theorem reward_increment_counterexample:
  "sortedByRecency isoInstant zeroAfterFive \<and> rewardTransaction (zeroAfterFive ! 0)
   \<and> displayAmounts exact zeroAfterFive ! 0 = Some 0
   \<and> specIncrement exact isoInstant zeroAfterFive 0 = Some (- 5)"
  by (simp add: zeroAfterFive_sorted zeroAfterFive_reward zeroAfterFive_shown zeroAfterFive_spec)

text \<open>
  Claim C4, as amended. For a reward transaction for which no prior reward transaction
  is found in the fetched list, the displayed amount is the transaction's own cumulative
  figure rounded to two decimals when that figure is positive, and 0 otherwise.
\<close>

theorem no_prior_reward:
  assumes "i < length txs" and "rewardTransaction (txs ! i)" and "noPriorFound txs i"
    and "num_sub ops (cumulativeFigure ops (txs ! i)) (num_lit ops 0) = cumulativeFigure ops (txs ! i)"
  shows "displayAmounts ops txs ! i =
           (if num_gt ops (cumulativeFigure ops (txs ! i)) (num_lit ops 0)
            then round2 ops (cumulativeFigure ops (txs ! i))
            else num_lit ops 0)"
proof -
  have w: "isWeeklySaleReward (txs ! i)" using assms(2) by (simp add: rewardTransaction_def)
  have "List.find (\<lambda>p. user_id p = user_id (txs ! i) \<and> rewardTransaction p) (drop (Suc i) txs) = None"
    using assms(3) by (auto simp: noPriorFound_def find_None_iff list_all_iff)
  then show ?thesis
    using assms(1,4) by (simp add: displayAmounts_nth displayAmount_reward [OF w])
qed



text \<open>A single reward of 5: the amount shown is 5.\<close>

theorem no_prior_reward_witness:
  "0 < length oneReward \<and> rewardTransaction (oneReward ! 0) \<and> noPriorFound oneReward 0
   \<and> displayAmounts exact oneReward ! 0 = round2 exact (Some 5)"
proof -
  have len: "0 < length oneReward" by (simp add: oneReward_def)
  have sub: "num_sub exact (cumulativeFigure exact (oneReward ! 0)) (num_lit exact 0)
               = cumulativeFigure exact (oneReward ! 0)"
    by (simp add: oneReward_figure) (simp add: exact_def exact_binop_def)
  have pos: "num_gt exact (Some 5) (num_lit exact 0)" by (simp add: exact_def)
  show ?thesis
    using no_prior_reward [OF len oneReward_reward oneReward_alone sub] len oneReward_reward
      oneReward_alone pos
    by (simp add: oneReward_figure)
qed

text \<open>
  Claim C4 as stated fails on the same list: no prior reward is found, and the amount
  shown is 5, not 0.
\<close>

theorem no_prior_reward_counterexample:
  "rewardTransaction (oneReward ! 0) \<and> noPriorFound oneReward 0
   \<and> displayAmounts exact oneReward ! 0 = Some 5
   \<and> displayAmounts exact oneReward ! 0 \<noteq> num_lit exact 0"
  by (simp add: oneReward_reward oneReward_alone oneReward_shown) (simp add: exact_def)

end
